theory Spec2Isabelle
  imports Complex_Main "HOL-Library.Product_Lexorder"
begin

section \<open>Common vocabulary\<close>

text \<open>
  Exceptions are values.  A function of the source that may let an exception reach its
  caller returns \<open>error + 'a\<close>, with \<open>Inl\<close> for the raise; a function whose body
  catches \<open>Exception\<close> on every path has no error component in its result type.
\<close>

datatype error =
    ZeroDivisionError
  | OverflowError
  | TypeError
  | FileNotFoundError
  | ImportError
  | AttributeError
  | DatabaseError

text \<open>
  The logger is an effect of its own: each function returns the records it wrote, in
  order.  Only the level and the message template matter below.
\<close>

datatype log_level = INFO | WARNING | ERROR

type_synonym log = "(log_level \<times> string) list"

text \<open>
  Prices, scores and volumes are Python floats (or database decimals turned into floats).
  They are modelled as exact rationals: rounding is left out, order, sign and the
  division by zero are kept.
\<close>

type_synonym price = rat

section \<open>Zone penetration (\<open>ChartGenerator._generate_html_chart\<close>)\<close>

text \<open>
  Python's true division raises \<open>ZeroDivisionError\<close> on a zero divisor, for floats
  as for ints.
\<close>

definition truediv :: "rat \<Rightarrow> rat \<Rightarrow> error + rat" where
  "truediv a b = (if b = 0 then Inl ZeroDivisionError else Inr (a / b))"

text \<open>
  \<^verbatim>\<open>
  zone_range = zone_top - zone_bottom
  if zone_type == 'demand':
      penetration_pct = max(0, (zone_bottom - current_price) / zone_range * 100)
  else:  # supply
      penetration_pct = max(0, (current_price - zone_top) / zone_range * 100)
  \<close>
  Every zone type other than the string \<open>demand\<close> takes the supply branch.
\<close>

definition penetration_pct :: "string \<Rightarrow> price \<Rightarrow> price \<Rightarrow> price \<Rightarrow> error + rat" where
  "penetration_pct zone_type zone_top zone_bottom current_price =
     (let zone_range = zone_top - zone_bottom in
      if zone_type = ''demand'' then
        (case truediv (zone_bottom - current_price) zone_range of
           Inl e \<Rightarrow> Inl e
         | Inr q \<Rightarrow> Inr (max 0 (q * 100)))
      else
        (case truediv (current_price - zone_top) zone_range of
           Inl e \<Rightarrow> Inl e
         | Inr q \<Rightarrow> Inr (max 0 (q * 100))))"

section \<open>Dates and times\<close>

text \<open>
  A naive \<open>datetime\<close> is the number of microseconds since 0001-01-01 00:00:00, the
  first instant Python can represent; the last one is 9999-12-31 23:59:59.999999.  A
  \<open>timedelta\<close> is a number of microseconds, at most 999999999 days in magnitude.
  Arithmetic that leaves either range raises \<open>OverflowError\<close>.
\<close>

type_synonym datetime = int
type_synonym timedelta = int

definition us_per_day :: int where
  "us_per_day = 86400000000"

definition datetime_max :: datetime where
  "datetime_max = 3652059 * 86400000000 - 1"

definition valid_datetime :: "datetime \<Rightarrow> bool" where
  "valid_datetime t = (0 \<le> t \<and> t \<le> datetime_max)"

definition mk_timedelta :: "int \<Rightarrow> error + timedelta" where
  "mk_timedelta us =
     (if - (999999999 * 86400000000) \<le> us \<and> us < 1000000000 * 86400000000
      then Inr us else Inl OverflowError)"

definition timedelta_days :: "int \<Rightarrow> error + timedelta" where
  "timedelta_days n = mk_timedelta (n * us_per_day)"

definition datetime_sub :: "datetime \<Rightarrow> timedelta \<Rightarrow> error + datetime" where
  "datetime_sub t d = (if valid_datetime (t - d) then Inr (t - d) else Inl OverflowError)"

definition date_of :: "datetime \<Rightarrow> int" where
  "date_of t = t div us_per_day"

definition replace_time :: "datetime \<Rightarrow> int \<Rightarrow> int \<Rightarrow> int \<Rightarrow> int \<Rightarrow> datetime" where
  "replace_time t h m s us = date_of t * us_per_day + ((h * 60 + m) * 60 + s) * 1000000 + us"

text \<open>
  \<open>timedelta * float\<close> is exact integer arithmetic in CPython: the float is taken as
  the ratio of two integers (\<open>float.as_integer_ratio\<close>, denominator positive), the
  microseconds are multiplied by the numerator and divided by the denominator, rounding
  to the nearest integer, a tie to the even one.  The float \<open>0.1\<close> is the ratio
  \<open>3602879701896397 / 36028797018963968\<close>, a little more than one tenth.
\<close>

definition divide_nearest :: "int \<Rightarrow> int \<Rightarrow> int" where
  "divide_nearest a b =
     (let q = a div b; r = a mod b in
      if 2 * r > b \<or> (2 * r = b \<and> odd q) then q + 1 else q)"

definition float_0_1 :: "int \<times> int" where
  "float_0_1 = (3602879701896397, 36028797018963968)"

definition timedelta_mul_float :: "timedelta \<Rightarrow> int \<times> int \<Rightarrow> error + timedelta" where
  "timedelta_mul_float d f = mk_timedelta (divide_nearest (d * fst f) (snd f))"

section \<open>Candles for a zone-alert chart (\<open>ChartGenerator._fetch_chart_data\<close>)\<close>

text \<open>
  \<^verbatim>\<open>
  query_single_day = start_time.date() == end_time.date()
  if query_single_day:
      padded_start = start_time.replace(hour=9, minute=30, second=0, microsecond=0)
  else:
      time_range = end_time - start_time
      padded_start = start_time - (time_range * 0.1)
  \<close>
  These lines stand before the \<open>try\<close> of the function: an \<open>OverflowError\<close> of the
  last subtraction reaches the caller.
\<close>

definition padded_start_of :: "datetime \<Rightarrow> datetime \<Rightarrow> error + datetime" where
  "padded_start_of start_time end_time =
     (let query_single_day = (date_of start_time = date_of end_time) in
      if query_single_day then Inr (replace_time start_time 9 30 0 0)
      else
        (let time_range = end_time - start_time in
         case timedelta_mul_float time_range float_0_1 of
           Inl e \<Rightarrow> Inl e
         | Inr pad \<Rightarrow> datetime_sub start_time pad))"

text \<open>
  A row of a candle view, \<open>(bucket, open, high, low, close, volume)\<close>, and the
  dictionary the function makes of it.
\<close>

type_synonym view_row = "datetime \<times> rat \<times> rat \<times> rat \<times> rat \<times> int"

record chart_candle =
  cc_timestamp :: datetime
  cc_open :: rat
  cc_high :: rat
  cc_low :: rat
  cc_close :: rat
  cc_volume :: int

fun chart_candle_of_row :: "view_row \<Rightarrow> chart_candle" where
  "chart_candle_of_row (b, o', h, l, c, v) =
     \<lparr>cc_timestamp = b, cc_open = o', cc_high = h, cc_low = l, cc_close = c, cc_volume = v\<rparr>"

text \<open>
  What the chart generator reads from outside: the symbol cache
  (\<open>SymbolCache.get_id\<close>, \<open>None\<close> for a ticker it does not know), the selector of
  the chart timeframe (\<open>get_chart_timeframe_for_zone\<close>, its minutes and its label),
  and the database, which answers the one range query on the view
  \<open>stocks.candles_<N>m\<close> with rows in bucket order or raises.
\<close>

record chart_env =
  symbol_cache_get_id :: "string \<Rightarrow> int option"
  get_chart_timeframe_for_zone :: "int \<Rightarrow> int \<times> string"
  run_view_query :: "int \<Rightarrow> int \<Rightarrow> datetime \<Rightarrow> datetime \<Rightarrow> error + view_row list"

text \<open>
  \<open>if not symbol_id\<close> holds for \<open>None\<close> and for the id 0.  The query runs inside
  \<open>try ... except Exception\<close>, which logs the error and returns the empty list.
\<close>

definition fetch_chart_data ::
  "chart_env \<Rightarrow> string \<Rightarrow> int \<Rightarrow> datetime \<Rightarrow> datetime \<Rightarrow> error + chart_candle list \<times> log" where
  "fetch_chart_data env symbol chart_timeframe_minutes start_time end_time =
     (let not_found = Inr ([], [(WARNING, ''Symbol not found in database'')]) in
      case symbol_cache_get_id env symbol of
        None \<Rightarrow> not_found
      | Some symbol_id \<Rightarrow>
          if symbol_id = 0 then not_found
          else
            (case padded_start_of start_time end_time of
               Inl e \<Rightarrow> Inl e
             | Inr padded_start \<Rightarrow>
                 (case run_view_query env chart_timeframe_minutes symbol_id
                         padded_start end_time of
                    Inl e \<Rightarrow>
                      Inr ([], [(INFO, ''Using view''), (ERROR, ''Error fetching chart data'')])
                  | Inr rows \<Rightarrow>
                      Inr (map chart_candle_of_row rows,
                           [(INFO, ''Using view''), (INFO, ''Fetched candles'')]))))"

section \<open>The database of the dashboard generator\<close>

text \<open>
  The SQL of \<open>LightweightDashboardGenerator\<close> is interpreted over tables held as
  lists of rows.  A column is nullable (an \<open>option\<close>) where the source itself treats
  a \<open>NULL\<close>: \<open>COALESCE(zone_score, 0.0)\<close>, \<open>float(row[5]) if row[5] else 0.0\<close>,
  \<open>bool(row[2]) if row[2] is not None else False\<close>.  Timestamps are \<open>datetime\<close>s.
\<close>

record ohlcv_row =
  row_symbol_id :: int
  row_time :: datetime
  row_open :: rat
  row_high :: rat
  row_low :: rat
  row_close :: rat
  row_volume :: "rat option"

record zone_row =
  zr_zone_id :: int
  zr_symbol_id :: int
  zr_timeframe_id :: int
  zr_zone_type :: string
  zr_bottom_price :: rat
  zr_top_price :: rat
  zr_start_time :: datetime
  zr_end_time :: datetime
  zr_zone_score :: "rat option"
  zr_is_broken :: bool

text \<open>
  \<open>vp_when\<close> is the date column of the volume profile: \<open>period_start\<close>, a
  timestamp, in the stocks schema and \<open>date\<close>, a day number, in the crypto schema.
\<close>

record vp_row =
  vp_symbol_id :: int
  vp_when :: int
  vp_price_level :: rat
  vp_volume :: "rat option"
  vp_node_type :: "string option"

record database =
  pg_matviews :: "(string \<times> string) list"
  matview :: "string \<Rightarrow> string \<Rightarrow> ohlcv_row list"
  minute_aggregates :: "string \<Rightarrow> ohlcv_row list"
  shared_timeframes :: "(int \<times> string) list"
  zones_table :: "string \<Rightarrow> zone_row list"
  volume_profile_table :: "string \<Rightarrow> vp_row list"

text \<open>The statements the generator sends, with their parameters.\<close>

datatype statement =
    MatviewExists string string
  | SelectMatview string string int datetime datetime
  | SelectMinuteStride string int datetime datetime int
  | SelectTimeBucket string int int datetime datetime
  | SelectTimeframeId string
  | SelectZones string int int
  | SelectVolumeProfile string string int int int

text \<open>
  A cursor is the database it reads together with the statements at which
  \<open>cursor.execute\<close> raises (a lost connection, a missing relation, a timeout).
\<close>

record cursor =
  cur_db :: database
  cur_raises :: "statement \<Rightarrow> bool"

subsection \<open>SQL functions\<close>

text \<open>
  \<open>EXTRACT(EPOCH FROM t)::bigint\<close>: seconds since 1970-01-01, rounded to the nearest
  integer, a tie away from zero.  \<open>EXTRACT(MINUTE FROM t)\<close>: the minute of the hour.
  \<open>time_bucket\<close> (TimescaleDB) aligns buckets of the given width to its default
  origin, 2000-01-03 00:00:00.
\<close>

definition unix_epoch :: datetime where
  "unix_epoch = 719162 * 86400000000"

definition epoch_bigint :: "datetime \<Rightarrow> int" where
  "epoch_bigint t =
     (let x = t - unix_epoch in
      if 0 \<le> x then (x + 500000) div 1000000 else - ((- x + 500000) div 1000000))"




text \<open>\<open>SUM\<close> skips \<open>NULL\<close>s and is \<open>NULL\<close> when nothing is left.\<close>

definition sql_sum :: "rat option list \<Rightarrow> rat option" where
  "sql_sum vs =
     (let present = List.map_filter (\<lambda>v. v) vs in
      if present = [] then None else Some (sum_list present))"

text \<open>\<open>BOOL_OR\<close> likewise.\<close>

definition sql_bool_or :: "bool option list \<Rightarrow> bool option" where
  "sql_bool_or bs =
     (let present = List.map_filter (\<lambda>b. b) bs in
      if present = [] then None else Some (list_ex (\<lambda>b. b) present))"

subsection \<open>Candle queries\<close>











section \<open>Fetching candles (\<open>LightweightDashboardGenerator._fetch_candles\<close>)\<close>





record candle =
  c_time :: int
  c_open :: rat
  c_high :: rat
  c_low :: rat
  c_close :: rat
  c_volume :: rat





section \<open>Fetching zones (\<open>LightweightDashboardGenerator._fetch_zones\<close>)\<close>

text \<open>
  \<open>SELECT id FROM shared.timeframes WHERE label = %s\<close>, then \<open>fetchone\<close>: the id of
  a row with that label, or \<open>None\<close>.
\<close>

definition execute_timeframe_id :: "cursor \<Rightarrow> string \<Rightarrow> error + int option" where
  "execute_timeframe_id cur label =
     (if cur_raises cur (SelectTimeframeId label) then Inl DatabaseError
      else Inr (map_option fst (find (\<lambda>r. snd r = label) (shared_timeframes (cur_db cur)))))"

text \<open>
  \<^verbatim>\<open>
  SELECT zone_id, zone_type, bottom_price, top_price,
      EXTRACT(EPOCH FROM start_time)::bigint as start_time,
      EXTRACT(EPOCH FROM end_time)::bigint as end_time,
      COALESCE(zone_score, 0.0) as zone_score,
      is_broken
  FROM {schema}.zones
  WHERE symbol_id = %s AND timeframe_id = %s
  ORDER BY zone_score DESC, start_time DESC
  LIMIT 30
  \<close>
  In PostgreSQL a plain name in \<open>ORDER BY\<close> that is both an output column and an input
  column means the output column: the rows are ordered by the coalesced score and by the
  start time in epoch seconds, the values the result carries.
\<close>

record zone_result =
  zq_zone_id :: int
  zq_zone_type :: string
  zq_bottom_price :: rat
  zq_top_price :: rat
  zq_start_time :: int
  zq_end_time :: int
  zq_zone_score :: rat
  zq_is_broken :: bool

definition zone_result_of :: "zone_row \<Rightarrow> zone_result" where
  "zone_result_of r =
     \<lparr>zq_zone_id = zr_zone_id r, zq_zone_type = zr_zone_type r,
      zq_bottom_price = zr_bottom_price r, zq_top_price = zr_top_price r,
      zq_start_time = epoch_bigint (zr_start_time r),
      zq_end_time = epoch_bigint (zr_end_time r),
      zq_zone_score = (case zr_zone_score r of None \<Rightarrow> 0 | Some x \<Rightarrow> x),
      zq_is_broken = zr_is_broken r\<rparr>"

definition zone_order_key :: "zone_result \<Rightarrow> rat \<times> int" where
  "zone_order_key z = (- zq_zone_score z, - zq_start_time z)"

definition select_zones :: "database \<Rightarrow> string \<Rightarrow> int \<Rightarrow> int \<Rightarrow> zone_result list" where
  "select_zones db schema symbol_id timeframe_id =
     take 30
       (sort_key zone_order_key
          (map zone_result_of
             (filter (\<lambda>r. zr_symbol_id r = symbol_id \<and> zr_timeframe_id r = timeframe_id)
                (zones_table db schema))))"

definition execute_zones :: "cursor \<Rightarrow> string \<Rightarrow> int \<Rightarrow> int \<Rightarrow> error + zone_result list" where
  "execute_zones cur schema symbol_id timeframe_id =
     (if cur_raises cur (SelectZones schema symbol_id timeframe_id) then Inl DatabaseError
      else Inr (select_zones (cur_db cur) schema symbol_id timeframe_id))"

text \<open>The dictionary made of a result row (exit price and exit time are always \<open>None\<close>).\<close>

record zone =
  zone_id :: int
  zone_type :: string
  bottom_price :: rat
  top_price :: rat
  start_time :: int
  end_time :: int
  zone_score :: rat
  is_broken :: bool
  exit_price :: "rat option"
  exit_time :: "int option"
  timeframe :: string

definition zone_of_result :: "string \<Rightarrow> zone_result \<Rightarrow> zone" where
  "zone_of_result tf z =
     \<lparr>zone_id = zq_zone_id z, zone_type = zq_zone_type z,
      bottom_price = zq_bottom_price z, top_price = zq_top_price z,
      start_time = zq_start_time z, end_time = zq_end_time z,
      zone_score = zq_zone_score z, is_broken = zq_is_broken z,
      exit_price = None, exit_time = None, timeframe = tf\<rparr>"

definition fetch_zones :: "cursor \<Rightarrow> string \<Rightarrow> int \<Rightarrow> string \<Rightarrow> zone list \<times> log" where
  "fetch_zones cur schema symbol_id tf =
     (case execute_timeframe_id cur tf of
        Inl e \<Rightarrow> ([], [(ERROR, ''Error fetching zones'')])
      | Inr None \<Rightarrow> ([], [(WARNING, ''Timeframe not found in shared.timeframes'')])
      | Inr (Some timeframe_id) \<Rightarrow>
          (case execute_zones cur schema symbol_id timeframe_id of
             Inl e \<Rightarrow> ([], [(INFO, ''Found timeframe_id''), (ERROR, ''Error fetching zones'')])
           | Inr rows \<Rightarrow>
               (map (zone_of_result tf) rows,
                [(INFO, ''Found timeframe_id''), (INFO, ''Fetched zones'')])))"

section \<open>Fetching the volume profile (\<open>LightweightDashboardGenerator._fetch_volume_profile\<close>)\<close>

text \<open>
  \<^verbatim>\<open>
  SELECT price_level as price,
      SUM(volume) as total_volume,
      BOOL_OR(node_type = 'HVN') as is_hvn,
      BOOL_OR(node_type = 'LVN') as is_lvn
  FROM {schema}.volume_profile
  WHERE symbol_id = %s AND {date_column} >= %s AND {date_column} <= %s
  GROUP BY price_level
  ORDER BY total_volume DESC
  LIMIT 50
  \<close>
  PostgreSQL orders \<open>NULL\<close> as larger than every value: in a descending order the
  \<open>NULL\<close> totals come first (\<open>NULLS FIRST\<close> is the default of \<open>DESC\<close>).
\<close>

type_synonym vp_result = "rat \<times> rat option \<times> bool option \<times> bool option"

definition is_node_type :: "string \<Rightarrow> vp_row \<Rightarrow> bool option" where
  "is_node_type t r = map_option (\<lambda>n. n = t) (vp_node_type r)"

definition vp_group :: "vp_row list \<Rightarrow> rat \<Rightarrow> vp_result" where
  "vp_group rows p =
     (let g = filter (\<lambda>r. vp_price_level r = p) rows in
      (p, sql_sum (map vp_volume g),
       sql_bool_or (map (is_node_type ''HVN'') g),
       sql_bool_or (map (is_node_type ''LVN'') g)))"

definition desc_nulls_first :: "rat option \<Rightarrow> int \<times> rat" where
  "desc_nulls_first v = (case v of None \<Rightarrow> (0, 0) | Some x \<Rightarrow> (1, - x))"

definition select_volume_profile :: "database \<Rightarrow> string \<Rightarrow> int \<Rightarrow> int \<Rightarrow> int \<Rightarrow> vp_result list" where
  "select_volume_profile db schema symbol_id lo hi =
     (let rows = filter (\<lambda>r. vp_symbol_id r = symbol_id \<and> lo \<le> vp_when r \<and> vp_when r \<le> hi)
                   (volume_profile_table db schema);
          levels = remdups (map vp_price_level rows)
      in take 50 (sort_key (\<lambda>g. desc_nulls_first (fst (snd g))) (map (vp_group rows) levels)))"

definition execute_volume_profile ::
  "cursor \<Rightarrow> string \<Rightarrow> string \<Rightarrow> int \<Rightarrow> int \<Rightarrow> int \<Rightarrow> error + vp_result list" where
  "execute_volume_profile cur schema date_column symbol_id lo hi =
     (if cur_raises cur (SelectVolumeProfile schema date_column symbol_id lo hi)
      then Inl DatabaseError
      else Inr (select_volume_profile (cur_db cur) schema symbol_id lo hi))"

record vp_node =
  price :: rat
  dollar_volume :: rat
  is_hvn :: bool
  is_lvn :: bool

text \<open>
  \<^verbatim>\<open>
  'price': float(row[0]),
  'dollar_volume': float(row[1]) if row[1] else 0.0,
  'is_hvn': bool(row[2]) if row[2] is not None else False,
  'is_lvn': bool(row[3]) if row[3] is not None else False
  \<close>
\<close>

fun vp_node_of_result :: "vp_result \<Rightarrow> vp_node" where
  "vp_node_of_result (p, tv, hvn, lvn) =
     \<lparr>price = p,
      dollar_volume = (case tv of None \<Rightarrow> 0 | Some x \<Rightarrow> x),
      is_hvn = (case hvn of None \<Rightarrow> False | Some b \<Rightarrow> b),
      is_lvn = (case lvn of None \<Rightarrow> False | Some b \<Rightarrow> b)\<rparr>"

text \<open>
  The stocks schema is filtered on the timestamp \<open>period_start\<close> with the two
  datetimes, every other schema on \<open>date\<close> with their calendar days.
\<close>

definition fetch_volume_profile ::
  "cursor \<Rightarrow> string \<Rightarrow> int \<Rightarrow> datetime \<Rightarrow> datetime \<Rightarrow> vp_node list \<times> log" where
  "fetch_volume_profile cur schema symbol_id start_date end_date =
     (let (date_column, lo, hi) =
            (if schema = ''stocks'' then (''period_start'', start_date, end_date)
             else (''date'', date_of start_date, date_of end_date))
      in case execute_volume_profile cur schema date_column symbol_id lo hi of
           Inl e \<Rightarrow> ([], [(ERROR, ''Error fetching volume profile'')])
         | Inr rows \<Rightarrow> (map vp_node_of_result rows, [(INFO, ''Fetched volume profile nodes'')]))"

section \<open>The thumbnail (\<open>ChartGenerator._generate_png_thumbnail\<close>)\<close>

text \<open>
  \<open>str.replace(old, new)\<close> for a non-empty \<open>old\<close>: every occurrence, left to right,
  without overlap.
\<close>

function str_replace :: "string \<Rightarrow> string \<Rightarrow> string \<Rightarrow> string" where
  "str_replace old new [] = []"
| "str_replace old new (c # cs) =
     (if old \<noteq> [] \<and> take (length old) (c # cs) = old
      then new @ str_replace old new (drop (length old - 1) cs)
      else c # str_replace old new cs)"
  by pat_completeness auto
termination
  by (relation "measure (\<lambda>(old, new, s). length s)") auto

text \<open>
  The argument is a \<open>str\<close> where \<open>_generate_html_chart\<close> made it
  (\<open>return str(filepath)\<close>) and a \<open>pathlib.Path\<close> where
  \<open>_generate_price_action_html\<close> made it (\<open>return filepath\<close>).  A \<open>str\<close> has
  \<open>replace(old, new)\<close>; \<open>Path.replace(target)\<close> takes one argument, and the call
  with two raises \<open>TypeError\<close>.
\<close>

datatype path_arg = Str string | PathObj string

text \<open>
  The file system is a map from paths to contents.  The first line stands before the
  \<open>try\<close>.  The body of the \<open>try\<close> imports \<open>plotly.io\<close> and \<open>kaleido\<close> (an
  \<open>ImportError\<close> where the package is not installed), reads the HTML file, logs
  "Generated PNG thumbnail" and returns the path; it writes nothing.  The handler logs
  the error and returns \<open>None\<close>.
  \<^verbatim>\<open>
  png_path = html_path.replace('.html', '.png')
  try:
      import plotly.io as pio
      from kaleido.scopes.plotly import PlotlyScope
      with open(html_path, 'r') as f:
          html_content = f.read()
      logger.info(f"Generated PNG thumbnail: {png_path}")
      return png_path
  except Exception as e:
      logger.error(f"Error generating PNG thumbnail: {e}")
      logger.info("PNG generation requires 'kaleido' package. ...")
      return None
  \<close>
\<close>

type_synonym files = "string \<rightharpoonup> string"

definition generate_png_thumbnail ::
  "bool \<Rightarrow> files \<Rightarrow> path_arg \<Rightarrow> error + string option \<times> files \<times> log" where
  "generate_png_thumbnail kaleido_installed fs html_path =
     (case html_path of
        PathObj p \<Rightarrow> Inl TypeError
      | Str p \<Rightarrow>
          (let png_path = str_replace ''.html'' ''.png'' p;
               failed = [(ERROR, ''Error generating PNG thumbnail''),
                         (INFO, ''PNG generation requires kaleido package'')]
           in if \<not> kaleido_installed then Inr (None, fs, failed)
              else case fs p of
                     None \<Rightarrow> Inr (None, fs, failed)
                   | Some html_content \<Rightarrow>
                       Inr (Some png_path, fs, [(INFO, ''Generated PNG thumbnail'')])))"

text \<open>
  \<open>generate_zone_alert_chart\<close>: the chart timeframe, the candles, and with no candle
  the pair \<open>(None, None)\<close>.  With candles the HTML chart is written by Plotly
  (\<open>write_html\<close>, a parameter here, which returns the path and the new file system)
  after the penetration is computed, and the thumbnail is made of it.
\<close>

definition generate_zone_alert_chart ::
  "chart_env \<Rightarrow> bool \<Rightarrow> (chart_candle list \<Rightarrow> files \<Rightarrow> string \<times> files) \<Rightarrow> files \<Rightarrow>
   string \<Rightarrow> string \<Rightarrow> price \<Rightarrow> price \<Rightarrow> int \<Rightarrow> datetime \<Rightarrow> price \<Rightarrow> datetime \<Rightarrow>
   error + (string option \<times> string option) \<times> files \<times> log" where
  "generate_zone_alert_chart env kaleido_installed write_html fs
       symbol ztype ztop zbottom zone_timeframe_minutes zone_formed_at current_price
       current_timestamp =
     (let (chart_timeframe_minutes, chart_label) =
            get_chart_timeframe_for_zone env zone_timeframe_minutes;
          log0 = [(INFO, ''Generating chart'')]
      in case fetch_chart_data env symbol chart_timeframe_minutes zone_formed_at
                current_timestamp of
           Inl e \<Rightarrow> Inl e
         | Inr (candles, log1) \<Rightarrow>
             if candles = [] then
               Inr ((None, None), fs, log0 @ log1 @ [(WARNING, ''No candle data found'')])
             else
               (case penetration_pct ztype ztop zbottom current_price of
                  Inl e \<Rightarrow> Inl e
                | Inr pct \<Rightarrow>
                    (let (html_path, fs1) = write_html candles fs in
                     case generate_png_thumbnail kaleido_installed fs1 (Str html_path) of
                       Inl e \<Rightarrow> Inl e
                     | Inr (png_path, fs2, log2) \<Rightarrow>
                         Inr ((Some html_path, png_path), fs2,
                              log0 @ log1 @ [(INFO, ''Generated HTML chart'')] @ log2
                                @ [(INFO, ''Generated charts'')]))))"

text \<open>
  \<open>generate_price_action_chart\<close>: the candles of the last \<open>lookback_days\<close>, with
  fewer than ten the pair \<open>(None, None)\<close>, otherwise the HTML chart and its thumbnail.
  \<^verbatim>\<open>
  if current_timestamp is None:
      current_timestamp = datetime.now()
  start_time = current_timestamp - timedelta(days=lookback_days)
  candles = self._fetch_chart_data(symbol=symbol, chart_timeframe_minutes=timeframe_minutes,
                                   start_time=start_time, end_time=current_timestamp)
  if not candles or len(candles) < 10:
      logger.warning(f"Insufficient data for {symbol}: {len(candles)} candles")
      return None, None
  html_path = self._generate_price_action_html(...)
  png_path = self._generate_png_thumbnail(html_path)
  return html_path, png_path
  \<close>
\<close>

definition generate_price_action_chart ::
  "chart_env \<Rightarrow> bool \<Rightarrow> (chart_candle list \<Rightarrow> files \<Rightarrow> string \<times> files) \<Rightarrow> files \<Rightarrow>
   datetime \<Rightarrow> string \<Rightarrow> int \<Rightarrow> int \<Rightarrow> datetime option \<Rightarrow>
   error + (string option \<times> string option) \<times> files \<times> log" where
  "generate_price_action_chart env kaleido_installed write_html fs now
       symbol timeframe_minutes lookback_days current_timestamp =
     (let current_timestamp = (case current_timestamp of None \<Rightarrow> now | Some t \<Rightarrow> t);
          log0 = [(INFO, ''Generating price action chart'')]
      in case timedelta_days lookback_days of
           Inl e \<Rightarrow> Inl e
         | Inr delta \<Rightarrow>
        (case datetime_sub current_timestamp delta of
           Inl e \<Rightarrow> Inl e
         | Inr start \<Rightarrow>
        (case fetch_chart_data env symbol timeframe_minutes start current_timestamp of
           Inl e \<Rightarrow> Inl e
         | Inr (candles, log1) \<Rightarrow>
             if candles = [] \<or> length candles < 10 then
               Inr ((None, None), fs, log0 @ log1 @ [(WARNING, ''Insufficient data'')])
             else
               (let (html_path, fs1) = write_html candles fs in
                case generate_png_thumbnail kaleido_installed fs1 (PathObj html_path) of
                  Inl e \<Rightarrow> Inl e
                | Inr (png_path, fs2, log2) \<Rightarrow>
                    Inr ((Some html_path, png_path), fs2,
                         log0 @ log1 @ [(INFO, ''Saved HTML chart'')] @ log2
                           @ [(INFO, ''Generated price action charts'')])))))"

section \<open>The dashboard data (\<open>LightweightDashboardGenerator._fetch_dashboard_data\<close>)\<close>

subsection \<open>The generator and its timeframe tables\<close>

record generator =
  market_type :: string
  schema :: string
  timeframes :: "(string \<times> int) list"
  lookback_days_map :: "(string \<times> int) list"






definition str_upper :: "string \<Rightarrow> string" where
  "str_upper = map (\<lambda>c. if 97 \<le> (of_char c :: nat) \<and> (of_char c :: nat) \<le> 122
                          then char_of (of_char c - 32 :: nat) else c)"

subsection \<open>The result\<close>

record bucket =
  candles :: "candle list"
  zones :: "zone list"
  volume_profile :: "vp_node list"

definition empty_bucket :: bucket where
  "empty_bucket = \<lparr>candles = [], zones = [], volume_profile = []\<rparr>"

record dashboard_data =
  dd_symbol :: string
  dd_market_type :: string
  dd_timeframes :: "(string \<times> bucket) list"

text \<open>
  A Python dictionary keeps its keys in insertion order; storing under a key that is
  present replaces the value where it stands.
\<close>

fun dict_set :: "'k \<Rightarrow> 'v \<Rightarrow> ('k \<times> 'v) list \<Rightarrow> ('k \<times> 'v) list" where
  "dict_set k v [] = [(k, v)]"
| "dict_set k v (p # ps) = (if fst p = k then (k, v) # ps else p # dict_set k v ps)"

subsection \<open>Connections\<close>

text \<open>
  Connections are numbered as \<open>get_connection\<close> hands them out; a cursor carries the
  number of its connection.  The session records which connections and cursors are open,
  the two local variables \<open>conn\<close> and \<open>cursor\<close> of the function, and the log.
\<close>

record session =
  connections_made :: nat
  open_connections :: "nat list"
  open_cursors :: "nat list"
  conn :: "nat option"
  cur :: "nat option"
  logged :: log

definition fresh_session :: session where
  "fresh_session =
     \<lparr>connections_made = 0, open_connections = [], open_cursors = [],
      conn = None, cur = None, logged = []\<rparr>"

text \<open>
  The driver decides which calls return and which raise, what the symbol query answers
  and what time it is.
\<close>

record driver =
  connect_ok :: "nat \<Rightarrow> bool"
  cursor_ok :: "nat \<Rightarrow> bool"
  rollback_ok :: "nat \<Rightarrow> bool"
  cursor_close_ok :: "nat \<Rightarrow> bool"
  close_ok :: "nat \<Rightarrow> bool"
  symbol_row :: "string \<Rightarrow> string \<Rightarrow> error + int option"
  utcnow :: datetime

type_synonym 'a op = "session \<Rightarrow> (error + 'a) \<times> session"

definition return :: "'a \<Rightarrow> 'a op" where
  "return x s = (Inr x, s)"

definition then_do :: "'a op \<Rightarrow> ('a \<Rightarrow> 'b op) \<Rightarrow> 'b op" where
  "then_do f g s = (case f s of (Inl e, s') \<Rightarrow> (Inl e, s') | (Inr x, s') \<Rightarrow> g x s')"

definition say :: "log_level \<Rightarrow> string \<Rightarrow> unit op" where
  "say level msg s = (Inr (), s\<lparr>logged := logged s @ [(level, msg)]\<rparr>)"

text \<open>\<open>conn = get_connection()\<close>\<close>

definition get_connection :: "driver \<Rightarrow> unit op" where
  "get_connection d s =
     (let n = connections_made s; s' = s\<lparr>connections_made := n + 1\<rparr> in
      if connect_ok d n
      then (Inr (), s'\<lparr>open_connections := open_connections s' @ [n], conn := Some n\<rparr>)
      else (Inl DatabaseError, s'))"

text \<open>\<open>cursor = conn.cursor()\<close>\<close>

definition open_cursor :: "driver \<Rightarrow> unit op" where
  "open_cursor d s =
     (case conn s of
        None \<Rightarrow> (Inl AttributeError, s)
      | Some c \<Rightarrow>
          if cursor_ok d c
          then (Inr (), s\<lparr>open_cursors := open_cursors s @ [c], cur := Some c\<rparr>)
          else (Inl DatabaseError, s))"

text \<open>\<open>if conn: conn.rollback()\<close>\<close>

definition rollback_conn :: "driver \<Rightarrow> unit op" where
  "rollback_conn d s =
     (case conn s of
        None \<Rightarrow> (Inr (), s)
      | Some c \<Rightarrow> if rollback_ok d c then (Inr (), s) else (Inl DatabaseError, s))"

text \<open>\<open>if cursor: cursor.close()\<close>\<close>

definition close_cursor :: "driver \<Rightarrow> unit op" where
  "close_cursor d s =
     (case cur s of
        None \<Rightarrow> (Inr (), s)
      | Some k \<Rightarrow>
          if cursor_close_ok d k
          then (Inr (), s\<lparr>open_cursors := removeAll k (open_cursors s)\<rparr>)
          else (Inl DatabaseError, s))"

text \<open>\<open>if conn: conn.close()\<close>\<close>

definition close_conn :: "driver \<Rightarrow> unit op" where
  "close_conn d s =
     (case conn s of
        None \<Rightarrow> (Inr (), s)
      | Some c \<Rightarrow>
          if close_ok d c
          then (Inr (), s\<lparr>open_connections := removeAll c (open_connections s)\<rparr>)
          else (Inl DatabaseError, s))"

subsection \<open>One timeframe\<close>

text \<open>
  The three fetch methods are called through \<open>self\<close>; each call returns a list or
  lets an exception out.  (The methods of the class, modelled above, catch the exceptions
  of their own statements and return the empty list; an exception that gets out of a call
  comes from somewhere else in it, or from a method put in its place.)
\<close>

record fetchers =
  f_candles :: "nat option \<Rightarrow> int \<Rightarrow> datetime \<Rightarrow> datetime \<Rightarrow> int \<Rightarrow> error + candle list"
  f_zones :: "nat option \<Rightarrow> int \<Rightarrow> string \<Rightarrow> error + zone list"
  f_volume_profile :: "nat option \<Rightarrow> int \<Rightarrow> datetime \<Rightarrow> datetime \<Rightarrow> error + vp_node list"

text \<open>
  \<^verbatim>\<open>
  tf_lookback_days = self.lookback_days_map.get(tf_name, lookback_days)
  start_date = end_date - timedelta(days=tf_lookback_days)
  candles = self._fetch_candles(cursor, symbol_id, start_date, end_date, tf_minutes)
  zones = self._fetch_zones(cursor, symbol_id, tf_name)
  volume_profile = self._fetch_volume_profile(cursor, symbol_id, start_date, end_date)
  \<close>
\<close>

definition timeframe_body ::
  "generator \<Rightarrow> fetchers \<Rightarrow> nat option \<Rightarrow> int \<Rightarrow> datetime \<Rightarrow> int \<Rightarrow> string \<Rightarrow> int \<Rightarrow>
   error + bucket" where
  "timeframe_body g F cursor symbol_id end_date lookback_days tf_name tf_minutes =
     (let tf_lookback_days =
            (case map_of (lookback_days_map g) tf_name of
               None \<Rightarrow> lookback_days | Some n \<Rightarrow> n)
      in case timedelta_days tf_lookback_days of
           Inl e \<Rightarrow> Inl e
         | Inr delta \<Rightarrow>
        (case datetime_sub end_date delta of
           Inl e \<Rightarrow> Inl e
         | Inr start_date \<Rightarrow>
        (case f_candles F cursor symbol_id start_date end_date tf_minutes of
           Inl e \<Rightarrow> Inl e
         | Inr cs \<Rightarrow>
        (case f_zones F cursor symbol_id tf_name of
           Inl e \<Rightarrow> Inl e
         | Inr zs \<Rightarrow>
        (case f_volume_profile F cursor symbol_id start_date end_date of
           Inl e \<Rightarrow> Inl e
         | Inr vp \<Rightarrow> Inr \<lparr>candles = cs, zones = zs, volume_profile = vp\<rparr>)))))"

subsection \<open>The loop and the function\<close>

text \<open>
  The handler of the loop:
  \<^verbatim>\<open>
  except Exception as e:
      logger.error(f"Error fetching {tf_name} data: {e}")
      # Rollback transaction and close old cursor/connection
      if conn:
          conn.rollback()
      if cursor:
          cursor.close()
      # Get new connection for next timeframe
      conn = get_connection()
      cursor = conn.cursor()
      dashboard_data['timeframes'][tf_name] = {'candles': [], 'zones': [], 'volume_profile': []}
      continue
  \<close>
\<close>

definition recover :: "driver \<Rightarrow> unit op" where
  "recover d =
     then_do (say ERROR ''Error fetching timeframe data'') (\<lambda>_.
     then_do (rollback_conn d) (\<lambda>_.
     then_do (close_cursor d) (\<lambda>_.
     then_do (get_connection d) (\<lambda>_.
     open_cursor d))))"

fun timeframe_loop ::
  "generator \<Rightarrow> fetchers \<Rightarrow> driver \<Rightarrow> int \<Rightarrow> datetime \<Rightarrow> int \<Rightarrow> (string \<times> int) list \<Rightarrow>
   (string \<times> bucket) list \<Rightarrow> (string \<times> bucket) list op" where
  "timeframe_loop g F d symbol_id end_date lookback_days [] acc s = (Inr acc, s)"
| "timeframe_loop g F d symbol_id end_date lookback_days ((tf_name, tf_minutes) # rest) acc s =
     (let s1 = snd (say INFO ''Fetching timeframe data'' s) in
      case timeframe_body g F (cur s1) symbol_id end_date lookback_days tf_name tf_minutes of
        Inr b \<Rightarrow>
          timeframe_loop g F d symbol_id end_date lookback_days rest (dict_set tf_name b acc) s1
      | Inl e \<Rightarrow>
          (case recover d s1 of
             (Inl e', s2) \<Rightarrow> (Inl e', s2)
           | (Inr u, s2) \<Rightarrow>
               timeframe_loop g F d symbol_id end_date lookback_days rest
                 (dict_set tf_name empty_bucket acc) s2))"

text \<open>The body of the outer \<open>try\<close>.\<close>

definition try_fetch ::
  "generator \<Rightarrow> fetchers \<Rightarrow> driver \<Rightarrow> string \<Rightarrow> int \<Rightarrow> dashboard_data option op" where
  "try_fetch g F d symbol lookback_days =
     then_do (get_connection d) (\<lambda>_.
     then_do (open_cursor d) (\<lambda>_.
     then_do (\<lambda>s. (symbol_row d (schema g) symbol, s)) (\<lambda>result.
       case result of
         None \<Rightarrow>
           then_do (say WARNING ''Symbol not found in symbols'') (\<lambda>_.
           then_do (close_cursor d) (\<lambda>_.
           then_do (close_conn d) (\<lambda>_.
           return None)))
       | Some symbol_id \<Rightarrow>
           then_do (timeframe_loop g F d symbol_id (utcnow d) lookback_days (timeframes g) [])
             (\<lambda>tfs.
           then_do (close_cursor d) (\<lambda>_.
           then_do (close_conn d) (\<lambda>_.
           return (Some \<lparr>dd_symbol = symbol, dd_market_type = str_upper (market_type g),
                         dd_timeframes = tfs\<rparr>)))))))"

text \<open>
  The handler of the outer \<open>try\<close>:
  \<^verbatim>\<open>
  except Exception as e:
      logger.error(f"Error fetching dashboard data: {e}")
      if conn:
          conn.rollback()
      if cursor:
          cursor.close()
      if conn:
          conn.close()
      return None
  \<close>
\<close>

definition fatal :: "driver \<Rightarrow> dashboard_data option op" where
  "fatal d =
     then_do (say ERROR ''Error fetching dashboard data'') (\<lambda>_.
     then_do (rollback_conn d) (\<lambda>_.
     then_do (close_cursor d) (\<lambda>_.
     then_do (close_conn d) (\<lambda>_.
     return None))))"

definition fetch_dashboard_data ::
  "generator \<Rightarrow> fetchers \<Rightarrow> driver \<Rightarrow> string \<Rightarrow> int \<Rightarrow> dashboard_data option op" where
  "fetch_dashboard_data g F d symbol lookback_days s =
     (case try_fetch g F d symbol lookback_days (s\<lparr>conn := None, cur := None\<rparr>) of
        (Inr r, s') \<Rightarrow> (Inr r, s')
      | (Inl e, s') \<Rightarrow> fatal d s')"

section \<open>Example data\<close>

text \<open>
  A small database for the worked examples: the symbol 7 on 2025-01-15, minute rows
  counted from 10:00.
\<close>

definition example_minute :: "int \<Rightarrow> rat \<Rightarrow> rat \<Rightarrow> rat \<Rightarrow> rat \<Rightarrow> rat option \<Rightarrow> ohlcv_row" where
  "example_minute m o' h l c v =
     \<lparr>row_symbol_id = 7, row_time = 63872532000000000 + m * 60000000,
      row_open = o', row_high = h, row_low = l, row_close = c, row_volume = v\<rparr>"

definition example_database :: database where
  "example_database =
     \<lparr>pg_matviews = [(''stocks'', ''candles_5m'')],
      matview = (\<lambda>sch name. [example_minute 0 100 104 99 103 (Some 60)]),
      minute_aggregates = (\<lambda>sch.
        [example_minute 1 101 104 100 102 None,
         example_minute 0 100 102 99 101 (Some 10),
         example_minute 30 103 105 103 104 (Some 30),
         example_minute 29 102 103 98 103 (Some 20)]),
      shared_timeframes = [(1, ''5min''), (2, ''30min'')],
      zones_table = (\<lambda>sch. []),
      volume_profile_table = (\<lambda>sch. [])\<rparr>"


text \<open>A volume profile with one price level whose volume is unknown.\<close>

definition example_level :: "rat \<Rightarrow> rat option \<Rightarrow> vp_row" where
  "example_level p v =
     \<lparr>vp_symbol_id = 7, vp_when = 63872532000000000, vp_price_level = p, vp_volume = v,
      vp_node_type = None\<rparr>"

definition example_volume_cursor :: cursor where
  "example_volume_cursor =
     \<lparr>cur_db = example_database
        \<lparr>volume_profile_table := (\<lambda>sch.
           [example_level 10 None, example_level 11 (Some 5), example_level 11 (Some 7)])\<rparr>,
      cur_raises = (\<lambda>st. False)\<rparr>"





text \<open>
  A chart request: the symbol cache knows AAPL, the view answers with ten candles, and
  Plotly writes the chart to \<open>chart.html\<close>.
\<close>

definition example_chart_env :: chart_env where
  "example_chart_env =
     \<lparr>symbol_cache_get_id = (\<lambda>s. if s = ''AAPL'' then Some 7 else None),
      get_chart_timeframe_for_zone = (\<lambda>m. (5, ''5min'')),
      run_view_query = (\<lambda>tf sid s e. Inr (replicate 10 (e, 100, 104, 98, 103, 60)))\<rparr>"

definition example_write_html :: "chart_candle list \<Rightarrow> files \<Rightarrow> string \<times> files" where
  "example_write_html cs fs = (''chart.html'', fs(''chart.html'' \<mapsto> ''<html></html>''))"

section \<open>Properties of the zone penetration\<close>

lemma penetration_pct_defined:
  "zone_top \<noteq> zone_bottom \<Longrightarrow> \<exists>p. penetration_pct zt zone_top zone_bottom cp = Inr p"
  by (simp add: penetration_pct_def truediv_def Let_def)

lemma penetration_pct_undefined_iff:
  "(\<exists>e. penetration_pct zt zone_top zone_bottom cp = Inl e) \<longleftrightarrow> zone_top = zone_bottom"
  by (simp add: penetration_pct_def truediv_def Let_def)



text \<open>
  Claim C10.  A zone with \<open>zone_top = zone_bottom\<close> meets the documented invariant
  \<open>zone_top \<ge> zone_bottom\<close>, and the penetration computation divides by its height:
  the code raises \<open>ZeroDivisionError\<close> there, for either zone type.
\<close>

theorem penetration_pct_flat_zone_raises:
  "(100 :: rat) \<le> 100
   \<and> penetration_pct ''demand'' 100 100 99 = Inl ZeroDivisionError
   \<and> penetration_pct ''supply'' 100 100 101 = Inl ZeroDivisionError"
  by (simp add: penetration_pct_def truediv_def Let_def)

section \<open>Properties of the start-time padding\<close>









section \<open>Properties of the lookups that find nothing\<close>

lemma find_None_label:
  "label \<notin> snd ` set xs \<Longrightarrow> find (\<lambda>r. snd r = label) xs = None"
  by (induction xs) auto

text \<open>
  Claim C7.  A ticker the symbol cache does not know makes \<open>_fetch_chart_data\<close>
  return the empty list with one warning, and \<open>generate_zone_alert_chart\<close> return
  \<open>(None, None)\<close> without touching the file system; a timeframe label that
  \<open>shared.timeframes\<close> does not hold makes \<open>_fetch_zones\<close> return the empty list
  with one warning.  Neither raises: the results are values, not errors.
\<close>

theorem unknown_symbol_or_timeframe:
  "(symbol_cache_get_id env symbol = None \<longrightarrow>
      fetch_chart_data env symbol tf s e
        = Inr ([], [(WARNING, ''Symbol not found in database'')])
      \<and> generate_zone_alert_chart env k w fs symbol zt ztop zbot ztf s cp e
        = Inr ((None, None), fs,
               [(INFO, ''Generating chart''), (WARNING, ''Symbol not found in database''),
                (WARNING, ''No candle data found'')]))
   \<and> (\<not> cur_raises crs (SelectTimeframeId label)
        \<and> label \<notin> snd ` set (shared_timeframes (cur_db crs)) \<longrightarrow>
      fetch_zones crs sch sid label
        = ([], [(WARNING, ''Timeframe not found in shared.timeframes'')]))"
proof (intro conjI impI)
  assume u: "symbol_cache_get_id env symbol = None"
  then show "fetch_chart_data env symbol tf s e
               = Inr ([], [(WARNING, ''Symbol not found in database'')])"
    by (simp add: fetch_chart_data_def)
  have "\<And>tf'. fetch_chart_data env symbol tf' s e
               = Inr ([], [(WARNING, ''Symbol not found in database'')])"
    using u by (simp add: fetch_chart_data_def)
  then show "generate_zone_alert_chart env k w fs symbol zt ztop zbot ztf s cp e
        = Inr ((None, None), fs,
               [(INFO, ''Generating chart''), (WARNING, ''Symbol not found in database''),
                (WARNING, ''No candle data found'')])"
    by (simp add: generate_zone_alert_chart_def split: prod.splits)
next
  assume "\<not> cur_raises crs (SelectTimeframeId label)
        \<and> label \<notin> snd ` set (shared_timeframes (cur_db crs))"
  then have "execute_timeframe_id crs label = Inr None"
    by (simp add: execute_timeframe_id_def find_None_label)
  then show "fetch_zones crs sch sid label
        = ([], [(WARNING, ''Timeframe not found in shared.timeframes'')])"
    by (simp add: fetch_zones_def)
qed

theorem unknown_symbol_or_timeframe_witness:
  "fetch_chart_data \<lparr>symbol_cache_get_id = (\<lambda>s. if s = ''AAPL'' then Some 7 else None),
        get_chart_timeframe_for_zone = (\<lambda>m. (5, ''5min'')),
        run_view_query = (\<lambda>_ _ _ _. Inr [])\<rparr> ''ZZZZ'' 5 63872532000000000 63872548200000000
      = Inr ([], [(WARNING, ''Symbol not found in database'')])
   \<and> fetch_zones \<lparr>cur_db = \<lparr>pg_matviews = [], matview = (\<lambda>_ _. []),
                      minute_aggregates = (\<lambda>_. []), shared_timeframes = [(1, ''5min'')],
                      zones_table = (\<lambda>_. []), volume_profile_table = (\<lambda>_. [])\<rparr>,
                   cur_raises = (\<lambda>_. False)\<rparr> ''stocks'' 7 ''4min''
      = ([], [(WARNING, ''Timeframe not found in shared.timeframes'')])"
  using unknown_symbol_or_timeframe
    [of "\<lparr>symbol_cache_get_id = (\<lambda>s. if s = ''AAPL'' then Some 7 else None),
        get_chart_timeframe_for_zone = (\<lambda>m. (5, ''5min'')),
        run_view_query = (\<lambda>_ _ _ _. Inr [])\<rparr>" "''ZZZZ''" 5 63872532000000000 63872548200000000
        undefined undefined undefined undefined undefined undefined undefined undefined
        "\<lparr>cur_db = \<lparr>pg_matviews = [], matview = (\<lambda>_ _. []),
                      minute_aggregates = (\<lambda>_. []), shared_timeframes = [(1, ''5min'')],
                      zones_table = (\<lambda>_. []), volume_profile_table = (\<lambda>_. [])\<rparr>,
                   cur_raises = (\<lambda>_. False)\<rparr>" "''4min''" "''stocks''" 7]
  by simp

section \<open>Properties of the thumbnail\<close>

text \<open>
  Claim C9.  With the rasterizer installed and the HTML chart on disk, the function
  answers with the path of a PNG, logs that it generated it, and leaves the file system as
  it was: no file stands at that path.
\<close>

theorem thumbnail_written_nowhere:
  "generate_png_thumbnail True [''chart.html'' \<mapsto> ''<html></html>''] (Str ''chart.html'')
     = Inr (Some ''chart.png'', [''chart.html'' \<mapsto> ''<html></html>''],
            [(INFO, ''Generated PNG thumbnail'')])
   \<and> [''chart.html'' \<mapsto> ''<html></html>''] ''chart.png'' = None"
  by (simp add: generate_png_thumbnail_def)

text \<open>Without the rasterizer the function logs the error and returns \<open>None\<close>.\<close>

lemma thumbnail_without_rasterizer:
  "generate_png_thumbnail False fs (Str html_path)
     = Inr (None, fs, [(ERROR, ''Error generating PNG thumbnail''),
                       (INFO, ''PNG generation requires kaleido package'')])"
  by (simp add: generate_png_thumbnail_def)

text \<open>Whenever it returns, the file system is the one it was given.\<close>

lemma thumbnail_writes_nothing:
  "generate_png_thumbnail k fs html_path = Inr (r, fs', lg) \<Longrightarrow> fs' = fs"
  by (auto simp: generate_png_thumbnail_def Let_def split: path_arg.splits option.splits if_splits)

text \<open>
  The price-action chart hands over a \<open>Path\<close>: with ten candles the thumbnail step
  raises, with or without the rasterizer, and so does the whole chart generation.
\<close>

lemma price_action_thumbnail_raises:
  "generate_price_action_chart example_chart_env k example_write_html Map.empty
     63872548200000000 ''AAPL'' 5 30 None = Inl TypeError"
  by (simp add: generate_price_action_chart_def timedelta_days_def mk_timedelta_def
      us_per_day_def datetime_sub_def valid_datetime_def datetime_max_def
      fetch_chart_data_def example_chart_env_def padded_start_of_def date_of_def
      timedelta_mul_float_def float_0_1_def divide_nearest_def Let_def
      example_write_html_def generate_png_thumbnail_def)

section \<open>Properties of the zone list\<close>

lemma select_zones_sorted:
  "sorted (map zone_order_key (select_zones db sch sid tfid))"
  unfolding select_zones_def take_map [symmetric]
  by (rule sorted_wrt_take) (rule sorted_sort_key)

lemma select_zones_length: "length (select_zones db sch sid tfid) \<le> 30"
  by (simp add: select_zones_def)

lemma zone_order_key_le:
  "zone_order_key a \<le> zone_order_key b \<longleftrightarrow>
     zq_zone_score b < zq_zone_score a
     \<or> (zq_zone_score a = zq_zone_score b \<and> zq_start_time b \<le> zq_start_time a)"
  by (auto simp: zone_order_key_def less_eq_prod_def)

lemma select_zones_ranked:
  "sorted_wrt (\<lambda>a b. zq_zone_score b < zq_zone_score a
                 \<or> (zq_zone_score a = zq_zone_score b \<and> zq_start_time b \<le> zq_start_time a))
     (select_zones db sch sid tfid)"
  using select_zones_sorted [of db sch sid tfid]
  by (simp add: sorted_map zone_order_key_le)

lemma fetch_zones_cases:
  "fst (fetch_zones crs sch sid tf) = []
   \<or> (\<exists>tfid. fst (fetch_zones crs sch sid tf)
          = map (zone_of_result tf) (select_zones (cur_db crs) sch sid tfid))"
  by (auto simp: fetch_zones_def execute_zones_def split: sum.splits option.splits)

text \<open>
  Claim C5.  Whatever the cursor answers or raises, the list \<open>_fetch_zones\<close> returns
  is ordered by score descending, equal scores by start time descending, and has at most
  30 entries.
\<close>

theorem fetch_zones_ranked:
  "sorted_wrt (\<lambda>a b. zone_score b < zone_score a
                 \<or> (zone_score a = zone_score b \<and> start_time b \<le> start_time a))
     (fst (fetch_zones crs sch sid tf))
   \<and> length (fst (fetch_zones crs sch sid tf)) \<le> 30"
proof -
  from fetch_zones_cases [of crs sch sid tf] show ?thesis
  proof
    assume "fst (fetch_zones crs sch sid tf) = []"
    then show ?thesis by simp
  next
    assume "\<exists>tfid. fst (fetch_zones crs sch sid tf)
          = map (zone_of_result tf) (select_zones (cur_db crs) sch sid tfid)"
    then obtain tfid where e: "fst (fetch_zones crs sch sid tf)
          = map (zone_of_result tf) (select_zones (cur_db crs) sch sid tfid)" ..
    show ?thesis
      unfolding e using select_zones_ranked [of "cur_db crs" sch sid tfid]
        select_zones_length [of "cur_db crs" sch sid tfid]
      by (simp add: sorted_wrt_map zone_of_result_def)
  qed
qed

section \<open>Properties of the candle source\<close>


















section \<open>Properties of the volume profile\<close>

lemma select_volume_profile_length: "length (select_volume_profile db sch sid lo hi) \<le> 50"
  by (simp add: select_volume_profile_def Let_def)

lemma fetch_volume_profile_capped:
  "length (fst (fetch_volume_profile crs sch sid s e)) \<le> 50"
  using select_volume_profile_length
  by (auto simp: fetch_volume_profile_def execute_volume_profile_def Let_def
      split: sum.splits if_splits)

lemma select_volume_profile_sorted:
  "sorted (map (\<lambda>g. desc_nulls_first (fst (snd g))) (select_volume_profile db sch sid lo hi))"
  unfolding select_volume_profile_def Let_def take_map [symmetric]
  by (rule sorted_wrt_take) (rule sorted_sort_key)

lemma desc_nulls_first_le:
  "desc_nulls_first (Some a) \<le> desc_nulls_first (Some b) \<longleftrightarrow> b \<le> a"
  by (auto simp: desc_nulls_first_def less_eq_prod_def)

lemma select_volume_profile_descending:
  assumes "\<forall>g\<in>set (select_volume_profile db sch sid lo hi). fst (snd g) \<noteq> None"
  shows "sorted_wrt (\<lambda>a b. dollar_volume b \<le> dollar_volume a)
           (map vp_node_of_result (select_volume_profile db sch sid lo hi))"
proof -
  have "sorted_wrt (\<lambda>x y. desc_nulls_first (fst (snd x)) \<le> desc_nulls_first (fst (snd y)))
          (select_volume_profile db sch sid lo hi)"
    using select_volume_profile_sorted [of db sch sid lo hi] by (simp add: sorted_map)
  then have "sorted_wrt (\<lambda>x y. dollar_volume (vp_node_of_result y)
                               \<le> dollar_volume (vp_node_of_result x))
          (select_volume_profile db sch sid lo hi)"
  proof (rule sorted_wrt_mono_rel [rotated])
    fix x y
    assume x: "x \<in> set (select_volume_profile db sch sid lo hi)"
      and y: "y \<in> set (select_volume_profile db sch sid lo hi)"
      and le: "desc_nulls_first (fst (snd x)) \<le> desc_nulls_first (fst (snd y))"
    from assms x have "fst (snd x) \<noteq> None" by blast
    then obtain a where a: "fst (snd x) = Some a" by auto
    from assms y have "fst (snd y) \<noteq> None" by blast
    then obtain b where b: "fst (snd y) = Some b" by auto
    from a b le show "dollar_volume (vp_node_of_result y) \<le> dollar_volume (vp_node_of_result x)"
      by (cases x; cases y) (simp add: desc_nulls_first_le)
  qed
  then show ?thesis by (simp add: sorted_wrt_map)
qed

lemma select_volume_profile_grouped:
  "distinct (map fst (select_volume_profile db sch sid lo hi))"
proof -
  have d: "distinct (map fst (map (vp_group rows) (remdups ps)))" for rows ps
    by (simp add: comp_def vp_group_def Let_def)
  have "distinct (map fst (sort_key f (map (vp_group rows) (remdups ps))))" for f rows ps
    using d [of rows ps] unfolding distinct_map [of fst] by simp
  then show ?thesis
    unfolding select_volume_profile_def Let_def take_map [symmetric]
    by (intro distinct_take) 
qed

text \<open>
  Claim C6.  The list is grouped by price level with the volumes summed
  (\<open>select_volume_profile_grouped\<close>), has at most 50 entries
  (\<open>fetch_volume_profile_capped\<close>) and descends by volume when no total is
  \<open>NULL\<close> (\<open>select_volume_profile_descending\<close>).  With a level whose volumes are
  all \<open>NULL\<close> it does not descend: the statement orders the \<open>NULL\<close> total first,
  and the function then reports it as 0.0, ahead of the level with volume 12.
\<close>

theorem volume_profile_null_total_first:
  "fst (fetch_volume_profile example_volume_cursor ''stocks'' 7
          63872116200000000 63872548200000000)
     = [\<lparr>price = 10, dollar_volume = 0, is_hvn = False, is_lvn = False\<rparr>,
        \<lparr>price = 11, dollar_volume = 12, is_hvn = False, is_lvn = False\<rparr>]"
  by code_simp

section \<open>Properties of the dashboard data\<close>

lemma dict_set_fresh: "k \<notin> fst ` set al \<Longrightarrow> dict_set k v al = al @ [(k, v)]"
  by (induction al) auto

lemma recover_returns:
  assumes "\<And>n. connect_ok d n" "\<And>n. cursor_ok d n" "\<And>n. rollback_ok d n"
    "\<And>n. cursor_close_ok d n"
  shows "\<exists>s'. recover d s = (Inr (), s')"
  using assms
  by (simp add: recover_def then_do_def say_def rollback_conn_def close_cursor_def
      get_connection_def open_cursor_def Let_def split: option.splits)



lemma timeframe_loop_one_failure:
  assumes ok: "\<And>n. connect_ok d n" "\<And>n. cursor_ok d n" "\<And>n. rollback_ok d n"
      "\<And>n. cursor_close_ok d n"
    and fails: "\<And>c m. (bad, m) \<in> set all \<Longrightarrow>
                  \<exists>e. timeframe_body g F c sid now lb bad m = Inl e"
    and others: "\<And>c n m. (n, m) \<in> set all \<Longrightarrow> n \<noteq> bad \<Longrightarrow>
                  timeframe_body g F c sid now lb n m = Inr (data n)"
  shows "set tfs \<subseteq> set all \<Longrightarrow> distinct (map fst tfs) \<Longrightarrow>
         fst ` set acc \<inter> fst ` set tfs = {} \<Longrightarrow>
         \<exists>s'. timeframe_loop g F d sid now lb tfs acc s
                = (Inr (acc @ map (\<lambda>(n, m). (n, if n = bad then empty_bucket else data n)) tfs),
                   s')"
proof (induction tfs arbitrary: acc s)
  case Nil
  then show ?case by simp
next
  case (Cons tf rest)
  obtain n m where tf: "tf = (n, m)" by (cases tf)
  let ?s1 = "snd (say INFO ''Fetching timeframe data'' s)"
  let ?f = "\<lambda>(n, m). (n, if n = bad then empty_bucket else data n)"
  from Cons.prems tf have mem: "(n, m) \<in> set all" and sub: "set rest \<subseteq> set all"
    and dis: "distinct (map fst rest)" and nrest: "n \<notin> fst ` set rest"
    and nacc: "n \<notin> fst ` set acc" and inter: "fst ` set acc \<inter> fst ` set rest = {}"
    by auto
  have fresh: "\<And>v. fst ` set (dict_set n v acc) \<inter> fst ` set rest = {}"
    using nrest nacc inter by (auto simp: dict_set_fresh)
  show ?case
  proof (cases "n = bad")
    case True
    from fails [of m "cur ?s1"] mem True obtain e
      where e: "timeframe_body g F (cur ?s1) sid now lb n m = Inl e" by auto
    from recover_returns [OF ok, of ?s1] obtain s2 where s2: "recover d ?s1 = (Inr (), s2)"
      by blast
    from Cons.IH [OF sub dis fresh, of empty_bucket s2] obtain s'
      where "timeframe_loop g F d sid now lb rest (dict_set n empty_bucket acc) s2
               = (Inr (dict_set n empty_bucket acc @ map ?f rest), s')" by blast
    then show ?thesis
      using e s2 True nacc by (simp add: tf Let_def dict_set_fresh)
  next
    case False
    from others [OF mem False, of "cur ?s1"]
    have b: "timeframe_body g F (cur ?s1) sid now lb n m = Inr (data n)" .
    from Cons.IH [OF sub dis fresh, of "data n" ?s1] obtain s'
      where "timeframe_loop g F d sid now lb rest (dict_set n (data n) acc) ?s1
               = (Inr (dict_set n (data n) acc @ map ?f rest), s')" by blast
    then show ?thesis
      using b False nacc by (simp add: tf Let_def dict_set_fresh)
  qed
qed









section \<open>Properties of the connections\<close>

lemma recover_connections:
  assumes "\<And>n. connect_ok d n" "\<And>n. cursor_ok d n" "\<And>n. rollback_ok d n"
    "\<And>n. cursor_close_ok d n"
  shows "open_connections (snd (recover d s)) = open_connections s @ [connections_made s]
         \<and> conn (snd (recover d s)) = Some (connections_made s)
         \<and> connections_made (snd (recover d s)) = Suc (connections_made s)"
  using assms
  by (simp add: recover_def then_do_def say_def rollback_conn_def close_cursor_def
      get_connection_def open_cursor_def Let_def split: option.splits)

lemma timeframe_loop_connections:
  assumes ok: "\<And>n. connect_ok d n" "\<And>n. cursor_ok d n" "\<And>n. rollback_ok d n"
      "\<And>n. cursor_close_ok d n"
    and fails: "\<And>c m. (bad, m) \<in> set all \<Longrightarrow>
                  \<exists>e. timeframe_body g F c sid now lb bad m = Inl e"
    and others: "\<And>c n m. (n, m) \<in> set all \<Longrightarrow> n \<noteq> bad \<Longrightarrow>
                  timeframe_body g F c sid now lb n m = Inr (data n)"
  shows "set tfs \<subseteq> set all \<Longrightarrow> distinct (map fst tfs) \<Longrightarrow>
         timeframe_loop g F d sid now lb tfs acc s = (r, s') \<Longrightarrow>
         open_connections s'
           = open_connections s @ (if bad \<in> fst ` set tfs then [connections_made s] else [])
         \<and> conn s' = (if bad \<in> fst ` set tfs then Some (connections_made s) else conn s)"
proof (induction tfs arbitrary: acc s)
  case Nil
  then show ?case by auto
next
  case (Cons tf rest)
  obtain n m where tf: "tf = (n, m)" by (cases tf)
  let ?s1 = "snd (say INFO ''Fetching timeframe data'' s)"
  have s1: "open_connections ?s1 = open_connections s" "conn ?s1 = conn s"
    "connections_made ?s1 = connections_made s"
    by (simp_all add: say_def)
  from Cons.prems tf have mem: "(n, m) \<in> set all" and sub: "set rest \<subseteq> set all"
    and dis: "distinct (map fst rest)" and nrest: "n \<notin> fst ` set rest"
    by auto
  show ?case
  proof (cases "n = bad")
    case True
    from fails [of m "cur ?s1"] mem True obtain e
      where e: "timeframe_body g F (cur ?s1) sid now lb n m = Inl e" by auto
    from recover_returns [OF ok, of ?s1] obtain s2 where s2: "recover d ?s1 = (Inr (), s2)"
      by blast
    from recover_connections [OF ok, of ?s1] s2 s1
    have c2: "open_connections s2 = open_connections s @ [connections_made s]"
      "conn s2 = Some (connections_made s)" by simp_all
    from Cons.prems(3) e s2
    have "timeframe_loop g F d sid now lb rest (dict_set n empty_bucket acc) s2 = (r, s')"
      by (simp add: tf Let_def)
    from Cons.IH [OF sub dis this] nrest True c2 show ?thesis by (simp add: tf)
  next
    case False
    from others [OF mem False, of "cur ?s1"]
    have b: "timeframe_body g F (cur ?s1) sid now lb n m = Inr (data n)" .
    from Cons.prems(3) b
    have "timeframe_loop g F d sid now lb rest (dict_set n (data n) acc) ?s1 = (r, s')"
      by (simp add: tf Let_def)
    from Cons.IH [OF sub dis this] False s1 show ?thesis by (auto simp: tf)
  qed
qed


lemma no_failure_releases_connection:
  assumes names: "distinct (map fst (timeframes g))"
    and ok: "\<forall>n. connect_ok d n \<and> cursor_ok d n \<and> rollback_ok d n
                 \<and> cursor_close_ok d n \<and> close_ok d n"
    and found: "symbol_row d (schema g) symbol = Inr (Some sid)"
    and every: "\<forall>c n m. (n, m) \<in> set (timeframes g) \<longrightarrow>
                  timeframe_body g F c sid (utcnow d) lb n m = Inr (data n)"
  shows "open_connections (snd (fetch_dashboard_data g F d symbol lb fresh_session)) = []"
proof -
  have "\<exists>bad. bad \<notin> fst ` set (timeframes g)"
    by (rule ex_new_if_finite [OF infinite_UNIV_listI]) simp
  then obtain bad :: string where bad: "bad \<notin> fst ` set (timeframes g)" ..
  then have fails: "\<And>c m. (bad, m) \<in> set (timeframes g) \<Longrightarrow>
                  \<exists>e. timeframe_body g F c sid (utcnow d) lb bad m = Inl e"
    by force
  let ?s0 = "fresh_session\<lparr>conn := None, cur := None\<rparr>"
  obtain s1 where g1: "get_connection d ?s0 = (Inr (), s1)"
    and o1: "open_connections s1 = [0]" and c1: "conn s1 = Some 0"
    using ok by (simp add: get_connection_def Let_def fresh_session_def)
  obtain s2 where g2: "open_cursor d s1 = (Inr (), s2)"
    and o2: "open_connections s2 = [0]" and c2: "conn s2 = Some 0"
    using ok c1 o1 by (simp add: open_cursor_def)
  obtain r s3 where l: "timeframe_loop g F d sid (utcnow d) lb (timeframes g) [] s2 = (r, s3)"
    by (cases "timeframe_loop g F d sid (utcnow d) lb (timeframes g) [] s2")
  from timeframe_loop_one_failure [of d bad "timeframes g" g F sid "utcnow d" lb data
        "timeframes g" "[]" s2] ok fails every names l
  obtain tfs where r: "r = Inr tfs" by auto
  from timeframe_loop_connections [of d bad "timeframes g" g F sid "utcnow d" lb data
        "timeframes g" "[]" s2 r s3] ok fails every names l bad o2 c2
  have o3: "open_connections s3 = [0]" and c3: "conn s3 = Some 0" by auto
  obtain s4 where g4: "close_cursor d s3 = (Inr (), s4)"
    and o4: "open_connections s4 = [0]" and c4: "conn s4 = Some 0"
    using ok o3 c3 by (cases "cur s3") (simp_all add: close_cursor_def)
  obtain s5 where g5: "close_conn d s4 = (Inr (), s5)" and o5: "open_connections s5 = []"
    using ok o4 c4 by (simp add: close_conn_def)
  have "try_fetch g F d symbol lb ?s0
          = (Inr (Some \<lparr>dd_symbol = symbol, dd_market_type = str_upper (market_type g),
                         dd_timeframes = tfs\<rparr>), s5)"
    using l unfolding r
    by (simp add: try_fetch_def then_do_def return_def g1 g2 found g4 g5)
  then have "snd (fetch_dashboard_data g F d symbol lb fresh_session) = s5"
    by (simp add: fetch_dashboard_data_def)
  with o5 show ?thesis by simp
qed

lemma symbol_not_found_releases_connection:
  assumes ok: "\<forall>n. connect_ok d n \<and> cursor_ok d n \<and> rollback_ok d n
                 \<and> cursor_close_ok d n \<and> close_ok d n"
    and missing: "symbol_row d (schema g) symbol = Inr None"
  shows "fst (fetch_dashboard_data g F d symbol lb fresh_session) = Inr None
         \<and> open_connections (snd (fetch_dashboard_data g F d symbol lb fresh_session)) = []"
  using ok missing
  by (simp add: fetch_dashboard_data_def try_fetch_def then_do_def return_def say_def
      get_connection_def open_cursor_def close_cursor_def close_conn_def fresh_session_def
      Let_def)

lemma failed_symbol_query_releases_connection:
  assumes ok: "\<forall>n. connect_ok d n \<and> cursor_ok d n \<and> rollback_ok d n
                 \<and> cursor_close_ok d n \<and> close_ok d n"
    and raised: "symbol_row d (schema g) symbol = Inl e"
  shows "fst (fetch_dashboard_data g F d symbol lb fresh_session) = Inr None
         \<and> open_connections (snd (fetch_dashboard_data g F d symbol lb fresh_session)) = []"
  using ok raised
  by (simp add: fetch_dashboard_data_def try_fetch_def fatal_def then_do_def return_def say_def
      get_connection_def open_cursor_def close_cursor_def close_conn_def rollback_conn_def
      fresh_session_def Let_def)


end
